theory Spec2Isabelle
  imports Main
begin

section \<open>The relational store (db.py)\<close>

text \<open>
  One record per table of \<open>SCHEMA_SQL\<close>, with the columns in the schema's order. A column
  that the indexer may fill with Python's \<open>None\<close> (SQL NULL) is an option. Text is a
  \<open>string\<close>; upper- and lower-casing below treat it as ASCII.
\<close>

record commit_row =
  cr_id :: string
  cr_author_name :: string
  cr_author_email :: string
  cr_authored_date :: int
  cr_message :: string

record file_row =
  fl_id :: int
  fl_path :: "string option"

record commit_file_row =
  cf_commit_id :: string
  cf_file_id :: int
  cf_additions :: int
  cf_deletions :: int
  cf_change_type :: string
  cf_old_path :: "string option"
  cf_new_path :: "string option"
  cf_is_binary :: int

record ownership_row =
  ow_file_id :: int
  ow_author_email :: string
  ow_commits :: int
  ow_lines_added :: int
  ow_lines_deleted :: int
  ow_first_commit :: "int option"
  ow_last_commit :: "int option"

record complexity_row =
  cx_file_id :: int
  cx_commit_id :: string
  cx_nloc :: int
  cx_ccn :: int
  cx_functions :: int

record feature_row =
  ft_commit_id :: string
  ft_type :: string
  ft_reference :: string

text \<open>
  A table without an integer primary key is a list of rows in insertion order, each with
  the rowid SQLite gave it. The \<open>files\<close> table has \<open>id INTEGER PRIMARY KEY
  AUTOINCREMENT\<close>: its rowid is the column \<open>fl_id\<close>, and \<open>files_seq\<close> is its entry
  in \<open>sqlite_sequence\<close>. The rowids of \<open>ownership\<close> are read by nothing and left out.
\<close>

type_synonym 'r table = "(int \<times> 'r) list"

record store =
  repo_meta :: "(string \<times> string) table"
  commits :: "commit_row table"
  files :: "file_row list"
  files_seq :: nat
  commit_files :: "commit_file_row table"
  ownership :: "ownership_row list"
  complexity :: "complexity_row table"
  features :: "feature_row table"

definition empty_store :: store where
  "empty_store = \<lparr>repo_meta = [], commits = [], files = [], files_seq = 0,
     commit_files = [], ownership = [], complexity = [], features = []\<rparr>"

text \<open>
  A connection: the committed content of the database file (\<open>disk\<close>), the content as this
  connection sees it with its uncommitted writes (\<open>work\<close>), and SQLite's
  \<open>sqlite3_last_insert_rowid\<close> of the connection, which is 0 until the connection's
  first successful insert and is left unchanged by an insert that \<open>OR IGNORE\<close> skips.
\<close>

record conn =
  disk :: store
  work :: store
  last_insert_rowid :: int

definition connect :: "store \<Rightarrow> conn" where
  "connect db = \<lparr>disk = db, work = db, last_insert_rowid = 0\<rparr>"

definition conn_commit :: "conn \<Rightarrow> conn" where
  "conn_commit c = c\<lparr>disk := work c\<rparr>"

text \<open>\<open>init_db\<close>: every statement of the schema is \<open>IF NOT EXISTS\<close>; a table that is
  absent is created empty, which is the empty list here.\<close>

definition init_db :: "conn \<Rightarrow> conn" where
  "init_db c = conn_commit c"

text \<open>The rowid of a new row of a table without AUTOINCREMENT: one more than the largest
  rowid in the table, and 1 in an empty table.\<close>

definition next_rowid :: "'r table \<Rightarrow> int" where
  "next_rowid t = (case map fst t of [] \<Rightarrow> 1 | i # rest \<Rightarrow> fold max rest i + 1)"

text \<open>The rowid of a new row of \<open>files\<close>: larger than every rowid in the table and than
  the recorded sequence value.\<close>

definition next_file_id :: "store \<Rightarrow> int" where
  "next_file_id db =
     max (case map fl_id (files db) of [] \<Rightarrow> 1 | i # rest \<Rightarrow> fold max rest i + 1)
         (int (files_seq db) + 1)"

text \<open>
  \<open>INSERT OR IGNORE INTO files(path) VALUES (?)\<close>. The column is UNIQUE, and NULLs never
  conflict. SQLite draws the new rowid before it checks the constraint and writes it back
  to \<open>sqlite_sequence\<close> whether or not the row is kept.
\<close>

definition insert_or_ignore_file :: "conn \<Rightarrow> string option \<Rightarrow> conn" where
  "insert_or_ignore_file c path =
     (let db = work c;
          v = next_file_id db;
          db' = db\<lparr>files_seq := nat v\<rparr>
      in if path \<noteq> None \<and> path \<in> set (map fl_path (files db))
         then c\<lparr>work := db'\<rparr>
         else c\<lparr>work := db'\<lparr>files := files db @ [\<lparr>fl_id = v, fl_path = path\<rparr>]\<rparr>,
                last_insert_rowid := v\<rparr>)"

text \<open>\<open>SELECT id FROM files WHERE path=?\<close>, \<open>fetchone()\<close>: no row equals NULL.\<close>

definition select_file_id :: "store \<Rightarrow> string option \<Rightarrow> int option" where
  "select_file_id db path =
     (case path of
        None \<Rightarrow> None
      | Some p \<Rightarrow> map_option fl_id (find (\<lambda>r. fl_path r = Some p) (files db)))"

datatype error = TypeError | AttributeError | OverflowError

text \<open>
  \<open>upsert_file\<close>. After \<open>execute\<close> of an INSERT statement Python sets the cursor's
  \<open>lastrowid\<close> from the connection's \<open>sqlite3_last_insert_rowid\<close>: the rowid of the
  new row when the row was stored, and otherwise the rowid of the connection's most recent
  stored row, of whichever table. \<open>if cur.lastrowid\<close> holds when it is not 0.
  \<open>int(row[0])\<close> raises TypeError when \<open>fetchone()\<close> gave no row.
\<close>

definition upsert_file :: "conn \<Rightarrow> string option \<Rightarrow> error + (int \<times> conn)" where
  "upsert_file c path =
     (let c' = insert_or_ignore_file c path;
          lastrowid = last_insert_rowid c'
      in if lastrowid \<noteq> 0 then Inr (lastrowid, c')
         else (case select_file_id (work c') path of
                 None \<Rightarrow> Inl TypeError
               | Some i \<Rightarrow> Inr (i, c')))"

text \<open>
  \<open>set_meta\<close>: \<open>INSERT ... ON CONFLICT(key) DO UPDATE SET value=excluded.value\<close>, then
  commit. An existing key keeps its row and takes the new value; a new key is a new row.
\<close>

definition set_meta :: "conn \<Rightarrow> string \<Rightarrow> string \<Rightarrow> conn" where
  "set_meta c k v =
     (let db = work c; t = repo_meta db
      in conn_commit
           (if k \<in> set (map (fst \<circ> snd) t)
            then c\<lparr>work := db\<lparr>repo_meta :=
                     map (\<lambda>(i, k', v'). if k' = k then (i, k', v) else (i, k', v')) t\<rparr>\<rparr>
            else c\<lparr>work := db\<lparr>repo_meta := t @ [(next_rowid t, k, v)]\<rparr>,
                   last_insert_rowid := next_rowid t\<rparr>))"

text \<open>
  An integer that Python binds to a statement has to fit SQLite's 64-bit INTEGER; for any
  other, binding raises OverflowError and the statement does not run.
\<close>

definition fits_int64 :: "int \<Rightarrow> bool" where
  "fits_int64 i \<longleftrightarrow> - (2 ^ 63) \<le> i \<and> i < 2 ^ 63"

text \<open>
  \<open>executemany\<close> runs one INSERT per row, in the order of the rows, and stops at the first
  row that raises. Every row that is stored moves the connection's last insert rowid. The
  connection that runs the bulk inserts never executes \<open>PRAGMA foreign_keys=ON\<close> (only
  \<open>init_db\<close> does, on the first connection), so no foreign key is checked. Tables are
  taken to be below SQLite's largest rowid.
\<close>

fun executemany :: "('r \<Rightarrow> conn \<Rightarrow> error + conn) \<Rightarrow> conn \<Rightarrow> 'r list \<Rightarrow> error + conn" where
  "executemany ins c [] = Inr c"
| "executemany ins c (r # rows) =
     (case ins r c of
        Inl err \<Rightarrow> Inl err
      | Inr c' \<Rightarrow> executemany ins c' rows)"

definition insert_commit_file :: "commit_file_row \<Rightarrow> conn \<Rightarrow> error + conn" where
  "insert_commit_file r c =
     (let db = work c; i = next_rowid (commit_files db)
      in if fits_int64 (cf_file_id r) \<and> fits_int64 (cf_additions r) \<and>
            fits_int64 (cf_deletions r) \<and> fits_int64 (cf_is_binary r)
         then Inr (c\<lparr>work := db\<lparr>commit_files := commit_files db @ [(i, r)]\<rparr>,
                     last_insert_rowid := i\<rparr>)
         else Inl OverflowError)"

definition bulk_insert_commit_files :: "conn \<Rightarrow> commit_file_row list \<Rightarrow> error + conn" where
  "bulk_insert_commit_files c rows = executemany insert_commit_file c rows"

text \<open>\<open>INSERT OR IGNORE INTO commits\<close>: \<open>id\<close> is the primary key, and a row whose id is
  already in the table is skipped.\<close>

definition insert_or_ignore_commit :: "commit_row \<Rightarrow> conn \<Rightarrow> error + conn" where
  "insert_or_ignore_commit r c =
     (let db = work c; i = next_rowid (commits db)
      in if \<not> fits_int64 (cr_authored_date r) then Inl OverflowError
         else if cr_id r \<in> set (map (cr_id \<circ> snd) (commits db)) then Inr c
         else Inr (c\<lparr>work := db\<lparr>commits := commits db @ [(i, r)]\<rparr>,
                     last_insert_rowid := i\<rparr>))"

definition bulk_insert_commits :: "conn \<Rightarrow> commit_row list \<Rightarrow> error + conn" where
  "bulk_insert_commits c rows = executemany insert_or_ignore_commit c rows"

text \<open>A feature row holds text only, and its insert cannot raise.\<close>

definition insert_feature :: "feature_row \<Rightarrow> conn \<Rightarrow> conn" where
  "insert_feature r c =
     (let db = work c; i = next_rowid (features db)
      in c\<lparr>work := db\<lparr>features := features db @ [(i, r)]\<rparr>,
           last_insert_rowid := i\<rparr>)"

definition bulk_insert_features :: "conn \<Rightarrow> feature_row list \<Rightarrow> conn" where
  "bulk_insert_features c rows = fold insert_feature rows c"

text \<open>\<open>INSERT OR REPLACE INTO complexity\<close>: the primary key is \<open>(file_id, commit_id)\<close>;
  the new rowid is drawn first, then the row with the same key is deleted and the new one
  is stored.\<close>

definition insert_or_replace_complexity :: "complexity_row \<Rightarrow> conn \<Rightarrow> error + conn" where
  "insert_or_replace_complexity r c =
     (let db = work c; i = next_rowid (complexity db);
          kept = filter (\<lambda>(_, r'). \<not> (cx_file_id r' = cx_file_id r \<and>
                                        cx_commit_id r' = cx_commit_id r)) (complexity db)
      in if fits_int64 (cx_file_id r) \<and> fits_int64 (cx_nloc r) \<and> fits_int64 (cx_ccn r) \<and>
            fits_int64 (cx_functions r)
         then Inr (c\<lparr>work := db\<lparr>complexity := kept @ [(i, r)]\<rparr>, last_insert_rowid := i\<rparr>)
         else Inl OverflowError)"

definition bulk_insert_complexity :: "conn \<Rightarrow> complexity_row list \<Rightarrow> error + conn" where
  "bulk_insert_complexity c rows = executemany insert_or_replace_complexity c rows"

section \<open>The collaborators of the indexer (git_indexer.py)\<close>

text \<open>
  A blob of the repository: whether its content is binary, and its content as text
  (\<open>data_stream.read().decode(errors='ignore')\<close>). GitPython's \<open>Blob\<close> object has the
  attributes \<open>hexsha\<close>, \<open>binsha\<close>, \<open>size\<close>, \<open>mode\<close>, \<open>path\<close>, \<open>name\<close>, \<open>abspath\<close>,
  \<open>mime_type\<close>, \<open>data_stream\<close> and \<open>stream_data\<close>; it has no attribute \<open>is_binary\<close>,
  so reading \<open>blob.is_binary\<close> raises AttributeError, whatever the content is.
\<close>

record blob =
  blob_binary :: bool
  blob_text :: string

definition blob_is_binary :: "blob \<Rightarrow> error + bool" where
  "blob_is_binary b = Inl AttributeError"

text \<open>
  What a commit did to one file, relative to its first parent: the kind of the change, the
  file's path and blob before it (in the parent) and after it (in the commit). An added
  file has nothing before, a deleted file nothing after.
\<close>

datatype change_kind = Added | Deleted | Modified | Renamed | TypeChanged

record file_change =
  fc_kind :: change_kind
  fc_pre_path :: "string option"
  fc_post_path :: "string option"
  fc_pre_blob :: "blob option"
  fc_post_blob :: "blob option"

text \<open>An entry of a GitPython diff, with the attributes of \<open>Diff\<close> that matter here.\<close>

record diff_entry =
  change_type :: string
  a_path :: "string option"
  b_path :: "string option"
  a_blob :: "blob option"
  b_blob :: "blob option"

text \<open>
  \<open>c.diff(parent, create_patch=False, R=False)\<close> is the diff from the commit to the
  parent: side a is the commit, side b is the parent, and the change type is the one seen
  in that direction. So a file that the commit added arrives as \<open>D\<close> with no \<open>b_blob\<close>, a
  file that it deleted as \<open>A\<close> with the parent's blob as \<open>b_blob\<close>, and a rename from
  \<open>old\<close> to \<open>new\<close> as \<open>R\<close> with \<open>a_path = new\<close> and \<open>b_path = old\<close>. Without
  \<open>create_patch\<close> both paths of an entry that is no rename are the one path of the file.
\<close>

definition diff_to_parent :: "file_change \<Rightarrow> diff_entry" where
  "diff_to_parent ch =
     (case fc_kind ch of
        Added \<Rightarrow>
          \<lparr>change_type = ''D'', a_path = fc_post_path ch, b_path = fc_post_path ch,
           a_blob = fc_post_blob ch, b_blob = None\<rparr>
      | Deleted \<Rightarrow>
          \<lparr>change_type = ''A'', a_path = fc_pre_path ch, b_path = fc_pre_path ch,
           a_blob = None, b_blob = fc_pre_blob ch\<rparr>
      | Modified \<Rightarrow>
          \<lparr>change_type = ''M'', a_path = fc_post_path ch, b_path = fc_post_path ch,
           a_blob = fc_post_blob ch, b_blob = fc_pre_blob ch\<rparr>
      | Renamed \<Rightarrow>
          \<lparr>change_type = ''R'', a_path = fc_post_path ch, b_path = fc_pre_path ch,
           a_blob = fc_post_blob ch, b_blob = fc_pre_blob ch\<rparr>
      | TypeChanged \<Rightarrow>
          \<lparr>change_type = ''T'', a_path = fc_post_path ch, b_path = fc_post_path ch,
           a_blob = fc_post_blob ch, b_blob = fc_pre_blob ch\<rparr>)"

text \<open>
  A commit with parents carries what it changed relative to the first one. A commit
  without parents makes the indexer call \<open>c.diff(None)\<close>, which compares the commit with
  the working tree; it carries the entries of that diff.
\<close>

datatype parentage = Root "diff_entry list" | Child "file_change list"

text \<open>\<open>stats_files\<close> is the dictionary \<open>c.stats.files\<close>, from a path to its insertions
  and deletions.\<close>

record git_commit =
  hexsha :: string
  author_name :: string
  author_email :: string
  authored_date :: int
  message :: string
  parentage :: parentage
  stats_files :: "string \<rightharpoonup> int \<times> int"

text \<open>Lines 66 to 68: the diff against the first parent, or against \<open>None\<close>.\<close>

definition commit_diff :: "git_commit \<Rightarrow> diff_entry list" where
  "commit_diff c =
     (case parentage c of
        Root ds \<Rightarrow> ds
      | Child chs \<Rightarrow> map diff_to_parent chs)"

text \<open>
  The analyzer's answer: it raises, it returns \<open>None\<close>, or it returns an object with
  \<open>nloc\<close> and a \<open>function_list\<close>, here the list of the functions'
  \<open>cyclomatic_complexity\<close>. A match object of \<open>re\<close>: its \<open>groupdict()\<close> and
  \<open>group(0)\<close>.
\<close>

datatype analysis = Raises | NoResult | Analysis int "int list"

record pattern =
  pat_pattern :: string
  pat_ignorecase :: bool

record rmatch =
  groupdict :: "string \<rightharpoonup> string option"
  group0 :: string

text \<open>The two libraries the indexer calls: lizard (optional) and \<open>re\<close>.\<close>

record env =
  analyze_code_string :: "string option \<Rightarrow> string \<Rightarrow> analysis"
  finditer :: "pattern \<Rightarrow> string \<Rightarrow> rmatch list"

text \<open>The \<open>analyze_code_string\<close> that is defined when lizard cannot be imported.\<close>

definition analyzer_unavailable :: "string option \<Rightarrow> string \<Rightarrow> analysis" where
  "analyzer_unavailable file_path code = NoResult"

definition backslash :: char where
  "backslash = CHR 0x5C"

definition FEATURE_PATTERNS :: "pattern list" where
  "FEATURE_PATTERNS =
     [\<lparr>pat_pattern = ''fixe?s?'' @ [backslash] @ ''s+#(?P<num>'' @ [backslash] @ ''d+)'',
       pat_ignorecase = True\<rparr>,
      \<lparr>pat_pattern = ''close[sd]?'' @ [backslash] @ ''s+#(?P<num>'' @ [backslash] @ ''d+)'',
       pat_ignorecase = True\<rparr>,
      \<lparr>pat_pattern = ''(?P<jira>[A-Z][A-Z0-9]+-'' @ [backslash] @ ''d+)'',
       pat_ignorecase = False\<rparr>]"

definition WHY_KEYWORDS :: "string list" where
  "WHY_KEYWORDS = [''why'', ''because'', ''reason'', ''motivation'', ''rfc'', ''design'',
     ''introduc'', ''decision'']"

subsection \<open>Strings\<close>

definition str_upper :: "string \<Rightarrow> string" where
  "str_upper s =
     map (\<lambda>ch. case map_of (zip ''abcdefghijklmnopqrstuvwxyz'' ''ABCDEFGHIJKLMNOPQRSTUVWXYZ'') ch of
                 None \<Rightarrow> ch | Some u \<Rightarrow> u) s"

definition str_lower :: "string \<Rightarrow> string" where
  "str_lower s =
     map (\<lambda>ch. case map_of (zip ''ABCDEFGHIJKLMNOPQRSTUVWXYZ'' ''abcdefghijklmnopqrstuvwxyz'') ch of
                 None \<Rightarrow> ch | Some l \<Rightarrow> l) s"

text \<open>Python's \<open>k in s\<close> on strings: \<open>k\<close> occurs in \<open>s\<close> as a contiguous run.\<close>

fun starts_with :: "string \<Rightarrow> string \<Rightarrow> bool" where
  "starts_with [] s = True"
| "starts_with (k # ks) [] = False"
| "starts_with (k # ks) (x # xs) = (k = x \<and> starts_with ks xs)"

fun str_in :: "string \<Rightarrow> string \<Rightarrow> bool" where
  "str_in k [] = (k = [])"
| "str_in k (x # xs) = (starts_with k (x # xs) \<or> str_in k xs)"

subsection \<open>One diff entry (lines 70 to 96)\<close>

text \<open>Line 73, with \<open>old_path = d.a_path\<close> and \<open>new_path = d.b_path\<close>.\<close>

definition path_eff :: "diff_entry \<Rightarrow> string option" where
  "path_eff d = (if str_upper (change_type d) \<noteq> ''D'' then b_path d else a_path d)"

text \<open>\<open>c.stats.files.get(path_eff, {"insertions": 0, "deletions": 0})\<close>: \<open>None\<close> is
  no key of the dictionary.\<close>

definition stats_get :: "(string \<rightharpoonup> int \<times> int) \<Rightarrow> string option \<Rightarrow> int \<times> int" where
  "stats_get st p =
     (case p of
        None \<Rightarrow> (0, 0)
      | Some q \<Rightarrow> (case st q of None \<Rightarrow> (0, 0) | Some v \<Rightarrow> v))"

text \<open>Line 81: \<open>1 if d.b_blob is not None and d.b_blob.is_binary else 0\<close>. The attribute
  is read whenever there is a \<open>b_blob\<close>, outside any \<open>try\<close>.\<close>

definition binary_flag :: "diff_entry \<Rightarrow> error + int" where
  "binary_flag d =
     (case b_blob d of
        None \<Rightarrow> Inr 0
      | Some b \<Rightarrow>
          (case blob_is_binary b of
             Inl err \<Rightarrow> Inl err
           | Inr bin \<Rightarrow> Inr (if bin then 1 else 0)))"

definition change_row :: "git_commit \<Rightarrow> diff_entry \<Rightarrow> int \<Rightarrow> int \<Rightarrow> commit_file_row" where
  "change_row c d file_id flag =
     (let (additions, deletions) = stats_get (stats_files c) (path_eff d)
      in \<lparr>cf_commit_id = hexsha c, cf_file_id = file_id, cf_additions = additions,
          cf_deletions = deletions, cf_change_type = str_upper (change_type d),
          cf_old_path = a_path d, cf_new_path = b_path d, cf_is_binary = flag\<rparr>)"

text \<open>
  Line 85, the condition of the complexity sample, also outside the \<open>try\<close>:
  \<open>analyze_code_string is not None\<close> always holds (either definition binds the name), and
  the conjunction stops at its first false part.
\<close>

definition sample_wanted :: "diff_entry \<Rightarrow> error + bool" where
  "sample_wanted d =
     (if str_upper (change_type d) \<noteq> ''D'' then
        (case b_blob d of
           None \<Rightarrow> Inr False
         | Some b \<Rightarrow>
             (case blob_is_binary b of
                Inl err \<Rightarrow> Inl err
              | Inr bin \<Rightarrow> Inr (\<not> bin)))
      else Inr False)"

text \<open>
  Lines 86 to 96, the body of the \<open>try\<close>: at most one row. Whatever raises inside it
  appends nothing, since the append is its last statement.
\<close>

definition complexity_sample ::
  "env \<Rightarrow> git_commit \<Rightarrow> diff_entry \<Rightarrow> int \<Rightarrow> complexity_row list" where
  "complexity_sample e c d file_id =
     (case b_blob d of
        None \<Rightarrow> []
      | Some b \<Rightarrow>
          (case analyze_code_string e (path_eff d) (blob_text b) of
             Raises \<Rightarrow> []
           | NoResult \<Rightarrow> []
           | Analysis n fl \<Rightarrow>
               [\<lparr>cx_file_id = file_id, cx_commit_id = hexsha c, cx_nloc = n,
                 cx_ccn = sum_list fl, cx_functions = int (length fl)\<rparr>]))"

record buffers =
  rows_commit_files :: "commit_file_row list"
  rows_features :: "feature_row list"
  rows_complex :: "complexity_row list"

text \<open>One pass of the inner loop. An exception leaves \<open>index\<close>; the model then says
  which one, and not what the database file holds.\<close>

definition process_diff ::
  "env \<Rightarrow> git_commit \<Rightarrow> conn \<times> buffers \<Rightarrow> diff_entry \<Rightarrow> error + conn \<times> buffers" where
  "process_diff e c s d =
     (case upsert_file (fst s) (path_eff d) of
        Inl err \<Rightarrow> Inl err
      | Inr (file_id, cn) \<Rightarrow>
          (case binary_flag d of
             Inl err \<Rightarrow> Inl err
           | Inr flag \<Rightarrow>
               (case sample_wanted d of
                  Inl err \<Rightarrow> Inl err
                | Inr wanted \<Rightarrow>
                    Inr (cn, (snd s)\<lparr>
                      rows_commit_files :=
                        rows_commit_files (snd s) @ [change_row c d file_id flag],
                      rows_complex :=
                        rows_complex (snd s) @
                          (if wanted then complexity_sample e c d file_id else [])\<rparr>))))"

fun process_diffs ::
  "env \<Rightarrow> git_commit \<Rightarrow> conn \<times> buffers \<Rightarrow> diff_entry list \<Rightarrow> error + conn \<times> buffers" where
  "process_diffs e c s [] = Inr s"
| "process_diffs e c s (d # ds) =
     (case process_diff e c s d of
        Inl err \<Rightarrow> Inl err
      | Inr s' \<Rightarrow> process_diffs e c s' ds)"

subsection \<open>Feature references and why markers (lines 98 to 106)\<close>

text \<open>\<open>a or b\<close> on optional strings: \<open>None\<close> and the empty string are false.\<close>

definition truthy :: "string option \<Rightarrow> bool" where
  "truthy v = (case v of None \<Rightarrow> False | Some s \<Rightarrow> s \<noteq> [])"

definition dict_get :: "(string \<rightharpoonup> string option) \<Rightarrow> string \<Rightarrow> string option" where
  "dict_get g k = (case g k of None \<Rightarrow> None | Some v \<Rightarrow> v)"

definition feature_ref :: "rmatch \<Rightarrow> string" where
  "feature_ref m =
     (if truthy (dict_get (groupdict m) ''num'') then the (dict_get (groupdict m) ''num'')
      else if truthy (dict_get (groupdict m) ''jira'') then the (dict_get (groupdict m) ''jira'')
      else group0 m)"

definition pattern_features :: "env \<Rightarrow> git_commit \<Rightarrow> feature_row list" where
  "pattern_features e c =
     concat (map (\<lambda>pat. map (\<lambda>m. \<lparr>ft_commit_id = hexsha c, ft_type = pat_pattern pat,
                                   ft_reference = feature_ref m\<rparr>)
                             (finditer e pat (message c)))
                 FEATURE_PATTERNS)"

definition why_marker :: "git_commit \<Rightarrow> feature_row list" where
  "why_marker c =
     (if list_ex (\<lambda>k. str_in k (str_lower (message c))) WHY_KEYWORDS
      then [\<lparr>ft_commit_id = hexsha c, ft_type = ''why_marker'', ft_reference = ''1''\<rparr>]
      else [])"

definition commit_features :: "env \<Rightarrow> git_commit \<Rightarrow> feature_row list" where
  "commit_features e c = pattern_features e c @ why_marker c"

subsection \<open>The orchestrator (\<open>GitIndexer.index\<close>)\<close>

text \<open>The three flush thresholds; the source fixes them at 1000, 500 and 1000.\<close>

record thresholds =
  th_commit_files :: nat
  th_complex :: nat
  th_features :: nat

definition source_thresholds :: thresholds where
  "source_thresholds = \<lparr>th_commit_files = 1000, th_complex = 500, th_features = 1000\<rparr>"

text \<open>Lines 109 to 120: each buffer that has reached its threshold is inserted, cleared
  and committed.\<close>

definition flush_commit_files :: "nat \<Rightarrow> conn \<times> buffers \<Rightarrow> error + conn \<times> buffers" where
  "flush_commit_files th s =
     (if length (rows_commit_files (snd s)) \<ge> th
      then (case bulk_insert_commit_files (fst s) (rows_commit_files (snd s)) of
              Inl err \<Rightarrow> Inl err
            | Inr cn \<Rightarrow> Inr (conn_commit cn, (snd s)\<lparr>rows_commit_files := []\<rparr>))
      else Inr s)"

definition flush_complex :: "nat \<Rightarrow> conn \<times> buffers \<Rightarrow> error + conn \<times> buffers" where
  "flush_complex th s =
     (if length (rows_complex (snd s)) \<ge> th
      then (case bulk_insert_complexity (fst s) (rows_complex (snd s)) of
              Inl err \<Rightarrow> Inl err
            | Inr cn \<Rightarrow> Inr (conn_commit cn, (snd s)\<lparr>rows_complex := []\<rparr>))
      else Inr s)"

definition flush_features :: "nat \<Rightarrow> conn \<times> buffers \<Rightarrow> conn \<times> buffers" where
  "flush_features th s =
     (if length (rows_features (snd s)) \<ge> th
      then (conn_commit (bulk_insert_features (fst s) (rows_features (snd s))),
            (snd s)\<lparr>rows_features := []\<rparr>)
      else s)"

definition flush_periodic :: "thresholds \<Rightarrow> conn \<times> buffers \<Rightarrow> error + conn \<times> buffers" where
  "flush_periodic ths s =
     (case flush_commit_files (th_commit_files ths) s of
        Inl err \<Rightarrow> Inl err
      | Inr s1 \<Rightarrow>
          (case flush_complex (th_complex ths) s1 of
             Inl err \<Rightarrow> Inl err
           | Inr s2 \<Rightarrow> Inr (flush_features (th_features ths) s2)))"

text \<open>The body of the second loop for one commit (lines 66 to 120).\<close>

definition index_commit ::
  "thresholds \<Rightarrow> env \<Rightarrow> conn \<times> buffers \<Rightarrow> git_commit \<Rightarrow> error + conn \<times> buffers" where
  "index_commit ths e s c =
     (case process_diffs e c s (commit_diff c) of
        Inl err \<Rightarrow> Inl err
      | Inr (cn, bufs) \<Rightarrow>
          flush_periodic ths
            (cn, bufs\<lparr>rows_features := rows_features bufs @ commit_features e c\<rparr>))"

fun diff_pass ::
  "thresholds \<Rightarrow> env \<Rightarrow> conn \<times> buffers \<Rightarrow> git_commit list \<Rightarrow> error + conn \<times> buffers" where
  "diff_pass ths e s [] = Inr s"
| "diff_pass ths e s (c # cs) =
     (case index_commit ths e s c of
        Inl err \<Rightarrow> Inl err
      | Inr s' \<Rightarrow> diff_pass ths e s' cs)"

text \<open>Lines 122 to 131: a buffer that is not empty is inserted and committed.\<close>

definition final_flush :: "conn \<times> buffers \<Rightarrow> error + conn" where
  "final_flush s =
     (let bufs = snd s in
      case (if rows_commit_files bufs \<noteq> []
            then map_sum id conn_commit
                   (bulk_insert_commit_files (fst s) (rows_commit_files bufs))
            else Inr (fst s)) of
        Inl err \<Rightarrow> Inl err
      | Inr c1 \<Rightarrow>
          (case (if rows_complex bufs \<noteq> []
                 then map_sum id conn_commit (bulk_insert_complexity c1 (rows_complex bufs))
                 else Inr c1) of
             Inl err \<Rightarrow> Inl err
           | Inr c2 \<Rightarrow>
               Inr (if rows_features bufs \<noteq> []
                    then conn_commit (bulk_insert_features c2 (rows_features bufs))
                    else c2)))"

definition commit_identity :: "git_commit \<Rightarrow> commit_row" where
  "commit_identity c =
     \<lparr>cr_id = hexsha c, cr_author_name = author_name c, cr_author_email = author_email c,
      cr_authored_date = authored_date c, cr_message = message c\<rparr>"

definition empty_buffers :: buffers where
  "empty_buffers = \<lparr>rows_commit_files = [], rows_features = [], rows_complex = []\<rparr>"

text \<open>
  \<open>index\<close>, from the content of the database file to its content after the run, or to
  the exception that ends the run, with the thresholds as a parameter. The first
  connection runs \<open>init_db\<close> and \<open>set_meta\<close>; line 61 opens a second connection, which
  does the rest.
\<close>

definition index_with ::
  "thresholds \<Rightarrow> env \<Rightarrow> string \<Rightarrow> git_commit list \<Rightarrow> store \<Rightarrow> error + store" where
  "index_with ths e repo_dir cs db =
     (let conn0 = set_meta (init_db (connect db)) ''repo_dir'' repo_dir;
          rows_commits = map commit_identity cs
      in case bulk_insert_commits (connect (disk conn0)) rows_commits of
           Inl err \<Rightarrow> Inl err
         | Inr cn \<Rightarrow>
             (case diff_pass ths e (conn_commit cn, empty_buffers) cs of
                Inl err \<Rightarrow> Inl err
              | Inr s \<Rightarrow> map_sum id disk (final_flush s)))"

definition index :: "env \<Rightarrow> string \<Rightarrow> git_commit list \<Rightarrow> store \<Rightarrow> error + store" where
  "index = index_with source_thresholds"

section \<open>The ownership aggregate (analysis.py)\<close>

text \<open>
  The SELECT of \<open>compute_ownership\<close>: the join of \<open>commit_files\<close> with \<open>commits\<close> on the
  commit id, grouped by file id and author email. \<open>MIN\<close> and \<open>MAX\<close> of no value are
  NULL. SQL fixes no order of the groups; here they come in the order of their last member.
\<close>

definition joined :: "store \<Rightarrow> (commit_file_row \<times> commit_row) list" where
  "joined db =
     concat (map (\<lambda>cf. map (\<lambda>c. (cf, c))
                            (filter (\<lambda>c. cr_id c = cf_commit_id cf) (map snd (commits db))))
                 (map snd (commit_files db)))"

definition group_key :: "commit_file_row \<times> commit_row \<Rightarrow> int \<times> string" where
  "group_key j = (cf_file_id (fst j), cr_author_email (snd j))"

definition sql_min :: "int list \<Rightarrow> int option" where
  "sql_min xs = (case xs of [] \<Rightarrow> None | x # rest \<Rightarrow> Some (fold min rest x))"

definition sql_max :: "int list \<Rightarrow> int option" where
  "sql_max xs = (case xs of [] \<Rightarrow> None | x # rest \<Rightarrow> Some (fold max rest x))"

definition aggregate :: "int \<times> string \<Rightarrow> (commit_file_row \<times> commit_row) list \<Rightarrow> ownership_row" where
  "aggregate k g =
     \<lparr>ow_file_id = fst k, ow_author_email = snd k,
      ow_commits = int (length (remdups (map (cf_commit_id \<circ> fst) g))),
      ow_lines_added = sum_list (map (cf_additions \<circ> fst) g),
      ow_lines_deleted = sum_list (map (cf_deletions \<circ> fst) g),
      ow_first_commit = sql_min (map (cr_authored_date \<circ> snd) g),
      ow_last_commit = sql_max (map (cr_authored_date \<circ> snd) g)\<rparr>"

definition ownership_select :: "store \<Rightarrow> ownership_row list" where
  "ownership_select db =
     map (\<lambda>k. aggregate k (filter (\<lambda>j. group_key j = k) (joined db)))
         (remdups (map group_key (joined db)))"

text \<open>
  \<open>compute_ownership\<close>, from the content of the database file to its content afterwards.
  The fault says whether the INSERT statement raises; the exception then leaves the function,
  and what the connection had not committed is lost.
\<close>

datatype fault = NoFault | InsertFails

datatype outcome = Completed | Failed

definition compute_ownership :: "fault \<Rightarrow> store \<Rightarrow> outcome \<times> store" where
  "compute_ownership ft db =
     (let c0 = connect db;
          c1 = conn_commit (c0\<lparr>work := (work c0)\<lparr>ownership := []\<rparr>\<rparr>)
      in case ft of
           InsertFails \<Rightarrow> (Failed, disk c1)
         | NoFault \<Rightarrow>
             (Completed,
              disk (conn_commit
                (c1\<lparr>work := (work c1)\<lparr>ownership := ownership_select (work c1)\<rparr>\<rparr>))))"

section \<open>Sample data\<close>

definition sample_env :: env where
  "sample_env = \<lparr>analyze_code_string = (\<lambda>file_path code. Analysis 1 [1]),
                  finditer = (\<lambda>pat s. [])\<rparr>"

definition no_analyzer_env :: env where
  "no_analyzer_env = \<lparr>analyze_code_string = analyzer_unavailable,
                       finditer = (\<lambda>pat s. [])\<rparr>"

definition text_blob :: blob where
  "text_blob = \<lparr>blob_binary = False, blob_text = ''x''\<rparr>"

definition new_text_blob :: blob where
  "new_text_blob = \<lparr>blob_binary = False, blob_text = ''y''\<rparr>"

definition binary_blob :: blob where
  "binary_blob = \<lparr>blob_binary = True, blob_text = ''x''\<rparr>"

definition new_binary_blob :: blob where
  "new_binary_blob = \<lparr>blob_binary = True, blob_text = ''y''\<rparr>"

text \<open>Changes of one file: it is added with a blob, it is modified from one blob to
  another, it is renamed with its blob unchanged.\<close>

definition added :: "string \<Rightarrow> blob \<Rightarrow> file_change" where
  "added p b = \<lparr>fc_kind = Added, fc_pre_path = None, fc_post_path = Some p,
     fc_pre_blob = None, fc_post_blob = Some b\<rparr>"

definition modified :: "string \<Rightarrow> blob \<Rightarrow> blob \<Rightarrow> file_change" where
  "modified p b b' = \<lparr>fc_kind = Modified, fc_pre_path = Some p, fc_post_path = Some p,
     fc_pre_blob = Some b, fc_post_blob = Some b'\<rparr>"

definition renamed :: "string \<Rightarrow> string \<Rightarrow> blob \<Rightarrow> file_change" where
  "renamed p p' b = \<lparr>fc_kind = Renamed, fc_pre_path = Some p, fc_post_path = Some p',
     fc_pre_blob = Some b, fc_post_blob = Some b\<rparr>"

text \<open>A commit by one author, with a first parent and the given changes.\<close>

definition child :: "string \<Rightarrow> string \<Rightarrow> file_change list \<Rightarrow> git_commit" where
  "child h msg chs =
     \<lparr>hexsha = h, author_name = ''ann'', author_email = ''ann@example.org'',
      authored_date = 5, message = msg, parentage = Child chs,
      stats_files = Map.empty\<rparr>"

text \<open>A store with two commits by two authors on one file, and one ownership row left by
  an earlier aggregation.\<close>

definition sample_store :: store where
  "sample_store = empty_store\<lparr>
     commits :=
       [(1, \<lparr>cr_id = ''h1'', cr_author_name = ''ann'', cr_author_email = ''ann@example.org'',
             cr_authored_date = 5, cr_message = ''add a''\<rparr>),
        (2, \<lparr>cr_id = ''h2'', cr_author_name = ''bob'', cr_author_email = ''bob@example.org'',
             cr_authored_date = 9, cr_message = ''edit a''\<rparr>)],
     files := [\<lparr>fl_id = 1, fl_path = Some ''a''\<rparr>],
     files_seq := 1,
     commit_files :=
       [(1, \<lparr>cf_commit_id = ''h1'', cf_file_id = 1, cf_additions = 3, cf_deletions = 0,
             cf_change_type = ''A'', cf_old_path = Some ''a'', cf_new_path = Some ''a'',
             cf_is_binary = 0\<rparr>),
        (2, \<lparr>cf_commit_id = ''h2'', cf_file_id = 1, cf_additions = 2, cf_deletions = 1,
             cf_change_type = ''M'', cf_old_path = Some ''a'', cf_new_path = Some ''a'',
             cf_is_binary = 0\<rparr>)],
     ownership :=
       [\<lparr>ow_file_id = 1, ow_author_email = ''ann@example.org'', ow_commits = 1,
         ow_lines_added = 3, ow_lines_deleted = 0, ow_first_commit = Some 5,
         ow_last_commit = Some 5\<rparr>]\<rparr>"

definition sample_owner :: ownership_row where
  "sample_owner =
     \<lparr>ow_file_id = 1, ow_author_email = ''bob@example.org'', ow_commits = 1,
      ow_lines_added = 2, ow_lines_deleted = 1, ow_first_commit = Some 9,
      ow_last_commit = Some 9\<rparr>"

text \<open>Thresholds that flush every buffer as soon as it holds a row.\<close>

definition eager_thresholds :: thresholds where
  "eager_thresholds = \<lparr>th_commit_files = 1, th_complex = 1, th_features = 1\<rparr>"

text \<open>Two commits on two branches: \<open>h1\<close> adds the files \<open>a\<close> and \<open>b\<close> and explains
  why, \<open>h2\<close> adds a file \<open>b\<close> as well.\<close>

definition two_commits :: "git_commit list" where
  "two_commits =
     [child ''h1'' ''why'' [added ''a'' text_blob, added ''b'' text_blob],
      child ''h2'' ''edit'' [added ''b'' text_blob]]"

text \<open>Histories of one commit: it renames \<open>old.py\<close> to \<open>new.py\<close>; it adds the binary
  file \<open>logo.png\<close>; it modifies the binary file \<open>logo.png\<close>; it modifies the text
  file \<open>a\<close>.\<close>

definition rename_commit :: git_commit where
  "rename_commit = child ''h1'' ''rename'' [renamed ''old.py'' ''new.py'' text_blob]"

definition add_logo_commit :: git_commit where
  "add_logo_commit = child ''h1'' ''add logo'' [added ''logo.png'' binary_blob]"

definition edit_logo_commit :: git_commit where
  "edit_logo_commit = child ''h1'' ''edit logo'' [modified ''logo.png'' binary_blob new_binary_blob]"

definition edit_commit :: git_commit where
  "edit_commit = child ''h1'' ''edit'' [modified ''a'' text_blob new_text_blob]"

section \<open>File identity resolution\<close>

text \<open>
  C9. The claim: \<open>upsert_file\<close> returns the existing id of a path that is already in
  \<open>files\<close>, so two calls with the same path return the same id. On a new connection to
  an empty store the calls for \<open>a\<close>, \<open>b\<close>, \<open>a\<close> return 1, 2, 2: the third INSERT is
  ignored, the connection's last insert rowid is still 2 (the row of \<open>b\<close>), and the
  function returns it without looking the path up.
\<close>

theorem upsert_file_returns_stale_rowid:
  "\<exists>c1 c2 c3.
     upsert_file (connect empty_store) (Some ''a'') = Inr (1, c1) \<and>
     upsert_file c1 (Some ''b'') = Inr (2, c2) \<and>
     upsert_file c2 (Some ''a'') = Inr (2, c3) \<and>
     select_file_id (work c3) (Some ''a'') = Some 1"
  by (simp add: upsert_file_def insert_or_ignore_file_def next_file_id_def
      select_file_id_def connect_def empty_store_def Let_def)

section \<open>One diff entry\<close>

lemma next_file_id_pos: "1 \<le> next_file_id db"
  by (simp add: next_file_id_def)

lemma find_path_Some:
  "Some p \<in> set (map fl_path fs) \<Longrightarrow> \<exists>r. find (\<lambda>r. fl_path r = Some p) fs = Some r"
  by (induction fs) auto

text \<open>\<open>upsert_file\<close> never raises: when the connection's last insert rowid is 0, the INSERT
  was skipped, so the path is in the table and the SELECT finds it.\<close>

lemma upsert_file_total: "\<exists>i c'. upsert_file c path = Inr (i, c')"
proof (cases "path \<noteq> None \<and> path \<in> set (map fl_path (files (work c)))")
  case True
  then obtain p where p: "path = Some p" by auto
  with True obtain r where "find (\<lambda>r. fl_path r = Some p) (files (work c)) = Some r"
    using find_path_Some by blast
  with True p show ?thesis
    by (simp add: upsert_file_def insert_or_ignore_file_def select_file_id_def Let_def)
next
  case False
  have "next_file_id (work c) \<noteq> 0" using next_file_id_pos [of "work c"] by simp
  with False show ?thesis
    by (auto simp add: upsert_file_def insert_or_ignore_file_def Let_def)
qed

text \<open>An entry with a \<open>b_blob\<close> ends the run at line 81, after the file id is resolved.\<close>

lemma process_diff_b_blob:
  "b_blob d = Some b \<Longrightarrow> process_diff e c s d = Inl AttributeError"
proof -
  assume b: "b_blob d = Some b"
  obtain i cn where "upsert_file (fst s) (path_eff d) = Inr (i, cn)"
    using upsert_file_total by blast
  with b show ?thesis
    by (simp add: process_diff_def binary_flag_def blob_is_binary_def)
qed

text \<open>
  C2. The claim: the effective path of a change that is no deletion is its post-change
  path. For the commit that renames \<open>old.py\<close> to \<open>new.py\<close> the indexer gets an \<open>R\<close>
  entry whose \<open>a_path\<close> is \<open>new.py\<close> and whose \<open>b_path\<close> is \<open>old.py\<close>, since the diff
  runs from the commit to its parent. The effective path is \<open>b_path\<close>, so the line
  counts are looked up under \<open>old.py\<close> and the file id is resolved for \<open>old.py\<close>, the
  pre-change path, which becomes a row of \<open>files\<close>; \<open>new.py\<close> is not used. The entry
  then ends the run at line 81.
\<close>

theorem rename_uses_pre_change_path:
  "commit_diff rename_commit =
     [\<lparr>change_type = ''R'', a_path = Some ''new.py'', b_path = Some ''old.py'',
       a_blob = Some text_blob, b_blob = Some text_blob\<rparr>] \<and>
   path_eff (diff_to_parent (renamed ''old.py'' ''new.py'' text_blob)) = Some ''old.py'' \<and>
   fc_post_path (renamed ''old.py'' ''new.py'' text_blob) = Some ''new.py'' \<and>
   (\<exists>cn. upsert_file (connect empty_store)
            (path_eff (diff_to_parent (renamed ''old.py'' ''new.py'' text_blob))) = Inr (1, cn) \<and>
         files (work cn) = [\<lparr>fl_id = 1, fl_path = Some ''old.py''\<rparr>]) \<and>
   process_diff sample_env rename_commit (connect empty_store, empty_buffers)
     (diff_to_parent (renamed ''old.py'' ''new.py'' text_blob)) = Inl AttributeError"
proof -
  have d: "diff_to_parent (renamed ''old.py'' ''new.py'' text_blob) =
      \<lparr>change_type = ''R'', a_path = Some ''new.py'', b_path = Some ''old.py'',
       a_blob = Some text_blob, b_blob = Some text_blob\<rparr>"
    by (simp add: diff_to_parent_def renamed_def)
  have p: "path_eff (diff_to_parent (renamed ''old.py'' ''new.py'' text_blob)) = Some ''old.py''"
    by (simp add: d path_eff_def str_upper_def)
  have u: "\<exists>cn. upsert_file (connect empty_store) (Some ''old.py'') = Inr (1, cn) \<and>
      files (work cn) = [\<lparr>fl_id = 1, fl_path = Some ''old.py''\<rparr>]"
    by (simp add: upsert_file_def insert_or_ignore_file_def next_file_id_def connect_def
        empty_store_def Let_def)
  have r: "process_diff sample_env rename_commit (connect empty_store, empty_buffers)
      (diff_to_parent (renamed ''old.py'' ''new.py'' text_blob)) = Inl AttributeError"
    by (rule process_diff_b_blob) (simp add: d)
  have "commit_diff rename_commit = [diff_to_parent (renamed ''old.py'' ''new.py'' text_blob)]"
    by (simp add: commit_diff_def rename_commit_def child_def)
  with d p u r show ?thesis by (simp add: renamed_def)
qed

text \<open>
  C3. The claim: the stored binary flag is true exactly when the post-change blob exists
  and is binary. The commit that adds the binary file \<open>logo.png\<close> reaches the indexer
  as a \<open>D\<close> entry without a \<open>b_blob\<close> (the commit's blob is the \<open>a_blob\<close>); the run
  completes and stores the change with the type \<open>D\<close> and the flag 0. The commit that
  modifies the binary file has a \<open>b_blob\<close>, the parent's; reading its \<open>is_binary\<close>
  raises AttributeError, and the run stores no change record.
\<close>

theorem added_binary_file_not_marked:
  "commit_diff add_logo_commit =
     [\<lparr>change_type = ''D'', a_path = Some ''logo.png'', b_path = Some ''logo.png'',
       a_blob = Some binary_blob, b_blob = None\<rparr>] \<and>
   blob_binary binary_blob \<and>
   map_sum id (map (\<lambda>(i, r). (cf_change_type r, cf_old_path r, cf_new_path r, cf_is_binary r))
                 \<circ> commit_files)
     (index sample_env ''repo'' [add_logo_commit] empty_store)
   = Inr [(''D'', Some ''logo.png'', Some ''logo.png'', 0)] \<and>
   index sample_env ''repo'' [edit_logo_commit] empty_store = Inl AttributeError"
  by code_simp

section \<open>Why markers\<close>





section \<open>The ownership aggregate\<close>

lemma joined_iff:
  "j \<in> set (joined db) \<longleftrightarrow>
     fst j \<in> snd ` set (commit_files db) \<and> snd j \<in> snd ` set (commits db) \<and>
     cr_id (snd j) = cf_commit_id (fst j)"
  by (cases j) (auto simp add: joined_def)

lemma fold_min_le: "fold min xs (x::int) \<le> x"
proof (induction xs arbitrary: x)
  case Nil
  show ?case by simp
next
  case (Cons a xs)
  have "fold min xs (min a x) \<le> min a x" by (rule Cons.IH)
  then show ?case by simp
qed

lemma fold_max_ge: "(x::int) \<le> fold max xs x"
proof (induction xs arbitrary: x)
  case Nil
  show ?case by simp
next
  case (Cons a xs)
  have "max a x \<le> fold max xs (max a x)" by (rule Cons.IH)
  then show ?case by simp
qed

lemma sql_min_max:
  assumes "xs \<noteq> []" shows "\<exists>a b. sql_min xs = Some a \<and> sql_max xs = Some b \<and> a \<le> b"
proof (cases xs)
  case Nil
  then show ?thesis using assms by simp
next
  case (Cons x rest)
  have "fold min rest x \<le> x" by (rule fold_min_le)
  also have "x \<le> fold max rest x" by (rule fold_max_ge)
  finally show ?thesis by (simp add: Cons sql_min_def sql_max_def)
qed

lemma ownership_select_row:
  assumes "r \<in> set (ownership_select db)"
  obtains k g where "r = aggregate k g" and "g \<noteq> []" and "set g \<subseteq> set (joined db)"
proof -
  from assms obtain k where k: "k \<in> set (map group_key (joined db))"
    and r: "r = aggregate k (filter (\<lambda>j. group_key j = k) (joined db))"
    by (auto simp add: ownership_select_def)
  from k have "filter (\<lambda>j. group_key j = k) (joined db) \<noteq> []"
    by (auto simp add: filter_empty_conv)
  with r that show thesis by auto
qed

lemma compute_ownership_completed:
  "compute_ownership NoFault db = (Completed, db\<lparr>ownership := ownership_select db\<rparr>)"
  by (simp add: compute_ownership_def connect_def conn_commit_def ownership_select_def joined_def)

lemma compute_ownership_failed:
  "compute_ownership InsertFails db = (Failed, db\<lparr>ownership := []\<rparr>)"
  by (simp add: compute_ownership_def connect_def conn_commit_def)

text \<open>
  C10. When the stored additions and deletions are not negative, every row that
  \<open>compute_ownership\<close> writes has a commit count of at least 1, line totals that are not
  negative, and a first and a last commit date, the first not after the last.
\<close>

theorem ownership_rows_consistent:
  assumes nonneg: "\<forall>cf \<in> set (commit_files db).
                     0 \<le> cf_additions (snd cf) \<and> 0 \<le> cf_deletions (snd cf)"
    and r: "r \<in> set (ownership (snd (compute_ownership NoFault db)))"
  shows "1 \<le> ow_commits r \<and> 0 \<le> ow_lines_added r \<and> 0 \<le> ow_lines_deleted r \<and>
         (\<exists>a b. ow_first_commit r = Some a \<and> ow_last_commit r = Some b \<and> a \<le> b)"
proof -
  from r have "r \<in> set (ownership_select db)"
    by (simp add: compute_ownership_completed)
  then obtain k g where rg: "r = aggregate k g" and ne: "g \<noteq> []"
    and sub: "set g \<subseteq> set (joined db)"
    by (rule ownership_select_row)
  from ne have "remdups (map (cf_commit_id \<circ> fst) g) \<noteq> []" by simp
  then have "0 < length (remdups (map (cf_commit_id \<circ> fst) g))" by blast
  then have "1 \<le> int (length (remdups (map (cf_commit_id \<circ> fst) g)))" by linarith
  then have c: "1 \<le> ow_commits r" by (simp only: rg aggregate_def ownership_row.simps)
  have in_cf: "\<And>j. j \<in> set g \<Longrightarrow> fst j \<in> snd ` set (commit_files db)"
    using sub joined_iff by blast
  have "\<And>j. j \<in> set g \<Longrightarrow> 0 \<le> cf_additions (fst j) \<and> 0 \<le> cf_deletions (fst j)"
  proof -
    fix j assume "j \<in> set g"
    then obtain cf where "cf \<in> set (commit_files db)" and "fst j = snd cf"
      using in_cf by blast
    with nonneg show "0 \<le> cf_additions (fst j) \<and> 0 \<le> cf_deletions (fst j)" by simp
  qed
  then have a: "0 \<le> ow_lines_added r" and d: "0 \<le> ow_lines_deleted r"
    by (auto simp add: rg aggregate_def intro!: sum_list_nonneg)
  from ne have "map (cr_authored_date \<circ> snd) g \<noteq> []" by simp
  from sql_min_max [OF this] have
    "\<exists>a b. ow_first_commit r = Some a \<and> ow_last_commit r = Some b \<and> a \<le> b"
    by (simp add: rg aggregate_def)
  with c a d show ?thesis by blast
qed


lemma filter_file_select:
  "filter (\<lambda>r. ow_file_id r = f) (ownership_select db) =
     map (\<lambda>k. aggregate k (filter (\<lambda>j. group_key j = k) (joined db)))
         (filter (\<lambda>k. fst k = f) (remdups (map group_key (joined db))))"
  by (simp add: ownership_select_def filter_map o_def aggregate_def)

lemma commits_pk_unique:
  assumes "distinct (map (cr_id \<circ> snd) (commits db))"
    and "c1 \<in> snd ` set (commits db)" and "c2 \<in> snd ` set (commits db)"
    and "cr_id c1 = cr_id c2"
  shows "c1 = c2"
proof -
  from assms(2,3) obtain x1 x2 where x: "x1 \<in> set (commits db)" "x2 \<in> set (commits db)"
    "c1 = snd x1" "c2 = snd x2" by blast
  from assms(1) have "inj_on (cr_id \<circ> snd) (set (commits db))"
    by (simp add: distinct_map)
  moreover from x assms(4) have "(cr_id \<circ> snd) x1 = (cr_id \<circ> snd) x2" by simp
  ultimately have "x1 = x2" using x(1,2) by (rule inj_onD)
  with x show ?thesis by simp
qed

text \<open>
  C5. After \<open>compute_ownership\<close>, for every file id the commit counts of the file's
  ownership rows add up to the number of distinct commit ids among the file's change
  records, provided every commit id of a change record is in \<open>commits\<close> (whose ids, the
  primary key, are distinct).
\<close>

theorem ownership_commit_totals:
  assumes pk: "distinct (map (cr_id \<circ> snd) (commits db))"
    and fk: "\<forall>cf \<in> set (commit_files db).
               cf_commit_id (snd cf) \<in> set (map (cr_id \<circ> snd) (commits db))"
  shows "sum_list (map ow_commits
           (filter (\<lambda>r. ow_file_id r = f) (ownership (snd (compute_ownership NoFault db)))))
         = int (card ((cf_commit_id \<circ> snd) `
                  set (filter (\<lambda>cf. cf_file_id (snd cf) = f) (commit_files db))))"
proof -
  define J where "J = joined db"
  define Kf where "Kf = filter (\<lambda>k. fst k = f) (remdups (map group_key J))"
  define C where "C k = (cf_commit_id \<circ> fst) ` {j \<in> set J. group_key j = k}" for k
  have dist: "distinct Kf" by (simp add: Kf_def)
  have commits_eq: "ow_commits (aggregate k (filter (\<lambda>j. group_key j = k) J)) = int (card (C k))"
    for k
    by (simp add: aggregate_def C_def length_remdups_card_conv image_image o_def)
  have "sum_list (map ow_commits
           (filter (\<lambda>r. ow_file_id r = f) (ownership (snd (compute_ownership NoFault db)))))
        = sum_list (map (\<lambda>k. int (card (C k))) Kf)"
    by (simp add: compute_ownership_completed filter_file_select Kf_def J_def [symmetric]
        o_def commits_eq)
  also have "\<dots> = (\<Sum>k\<in>set Kf. int (card (C k)))"
    using dist by (rule sum_list_distinct_conv_sum_set)
  also have "\<dots> = int (\<Sum>k\<in>set Kf. card (C k))" by simp
  also have "(\<Sum>k\<in>set Kf. card (C k)) = card (\<Union>(C ` set Kf))"
  proof (rule card_UN_disjoint [symmetric])
    show "finite (set Kf)" by simp
    show "\<forall>k\<in>set Kf. finite (C k)" by (simp add: C_def)
    show "\<forall>k\<in>set Kf. \<forall>k'\<in>set Kf. k \<noteq> k' \<longrightarrow> C k \<inter> C k' = {}"
    proof (intro ballI impI)
      fix k k' assume k: "k \<in> set Kf" and k': "k' \<in> set Kf" and ne: "k \<noteq> k'"
      show "C k \<inter> C k' = {}"
      proof (rule ccontr)
        assume "C k \<inter> C k' \<noteq> {}"
        then obtain h where "h \<in> C k" and "h \<in> C k'" by blast
        then obtain j j' where j: "j \<in> set J" "group_key j = k" "cf_commit_id (fst j) = h"
          and j': "j' \<in> set J" "group_key j' = k'" "cf_commit_id (fst j') = h"
          by (auto simp add: C_def)
        from j(1) j'(1) have m: "snd j \<in> snd ` set (commits db)" "snd j' \<in> snd ` set (commits db)"
          "cr_id (snd j) = cf_commit_id (fst j)" "cr_id (snd j') = cf_commit_id (fst j')"
          by (simp_all add: J_def joined_iff)
        with j(3) j'(3) have "cr_id (snd j) = cr_id (snd j')" by simp
        with pk m(1,2) have "snd j = snd j'" by (rule commits_pk_unique)
        moreover from k k' have "fst k = fst k'" by (simp add: Kf_def)
        ultimately have "k = k'" using j(2) j'(2)
          by (simp add: group_key_def prod_eq_iff)
        with ne show False by simp
      qed
    qed
  qed
  also have "\<Union>(C ` set Kf) =
      (cf_commit_id \<circ> snd) ` {cf \<in> set (commit_files db). cf_file_id (snd cf) = f}"
  proof (intro set_eqI iffI)
    fix h assume "h \<in> \<Union>(C ` set Kf)"
    then obtain k j where "k \<in> set Kf" "j \<in> set J" "group_key j = k" "cf_commit_id (fst j) = h"
      by (auto simp add: C_def)
    then have "fst j \<in> snd ` set (commit_files db)" "cf_file_id (fst j) = f"
      "cf_commit_id (fst j) = h"
      by (auto simp add: J_def joined_iff Kf_def group_key_def)
    then obtain cf where "cf \<in> set (commit_files db)" "cf_file_id (snd cf) = f"
      "cf_commit_id (snd cf) = h" by auto
    then have "cf \<in> {cf \<in> set (commit_files db). cf_file_id (snd cf) = f}"
      and "h = (cf_commit_id \<circ> snd) cf" by simp_all
    then show "h \<in> (cf_commit_id \<circ> snd) ` {cf \<in> set (commit_files db). cf_file_id (snd cf) = f}"
      by (rule_tac image_eqI)
  next
    fix h assume "h \<in> (cf_commit_id \<circ> snd) ` {cf \<in> set (commit_files db). cf_file_id (snd cf) = f}"
    then obtain cf where cf: "cf \<in> set (commit_files db)" "cf_file_id (snd cf) = f"
      "cf_commit_id (snd cf) = h" by auto
    with fk obtain c where c: "c \<in> set (commits db)" "cr_id (snd c) = h" by force
    define j where "j = (snd cf, snd c)"
    from cf c have jJ: "j \<in> set J" by (simp add: J_def joined_iff j_def)
    then have "group_key j \<in> group_key ` set J" by (rule imageI)
    moreover have "fst (group_key j) = f" using cf(2) by (simp add: j_def group_key_def)
    ultimately have "group_key j \<in> set Kf" by (simp add: Kf_def)
    moreover have "h \<in> C (group_key j)" using jJ cf(3) by (force simp add: C_def j_def)
    ultimately show "h \<in> \<Union>(C ` set Kf)" by blast
  qed
  finally show ?thesis by simp
qed


lemma sample_select:
  "ownership_select sample_store =
     [\<lparr>ow_file_id = 1, ow_author_email = ''ann@example.org'', ow_commits = 1,
       ow_lines_added = 3, ow_lines_deleted = 0, ow_first_commit = Some 5,
       ow_last_commit = Some 5\<rparr>, sample_owner]"
  by (simp add: ownership_select_def joined_def sample_store_def empty_store_def group_key_def
      aggregate_def sql_min_def sql_max_def sample_owner_def)

theorem ownership_rows_consistent_witness:
  "sample_owner \<in> set (ownership (snd (compute_ownership NoFault sample_store))) \<and>
   1 \<le> ow_commits sample_owner \<and> 0 \<le> ow_lines_added sample_owner \<and>
   0 \<le> ow_lines_deleted sample_owner \<and>
   (\<exists>a b. ow_first_commit sample_owner = Some a \<and> ow_last_commit sample_owner = Some b \<and>
          a \<le> b)"
proof -
  have nonneg: "\<forall>cf \<in> set (commit_files sample_store).
                  0 \<le> cf_additions (snd cf) \<and> 0 \<le> cf_deletions (snd cf)"
    by (simp add: sample_store_def empty_store_def)
  have r: "sample_owner \<in> set (ownership (snd (compute_ownership NoFault sample_store)))"
    by (simp add: compute_ownership_completed sample_select)
  from ownership_rows_consistent [OF nonneg r] r show ?thesis by blast
qed

theorem ownership_commit_totals_witness:
  "sum_list (map ow_commits
     (filter (\<lambda>r. ow_file_id r = 1) (ownership (snd (compute_ownership NoFault sample_store)))))
   = 2"
proof -
  have pk: "distinct (map (cr_id \<circ> snd) (commits sample_store))"
    by (simp add: sample_store_def empty_store_def)
  have fk: "\<forall>cf \<in> set (commit_files sample_store).
              cf_commit_id (snd cf) \<in> set (map (cr_id \<circ> snd) (commits sample_store))"
    by (simp add: sample_store_def empty_store_def)
  have "card ((cf_commit_id \<circ> snd) `
          set (filter (\<lambda>cf. cf_file_id (snd cf) = 1) (commit_files sample_store))) = 2"
    by (simp add: sample_store_def empty_store_def del: set_filter)
  with ownership_commit_totals [OF pk fk, of 1] show ?thesis by simp
qed

text \<open>
  C1. The claim: a failure of the aggregation after the delete leaves the ownership table
  in its prior complete state. It does not: the function commits the DELETE before it
  runs the INSERT. On the sample store a first run fills the table, and a second run
  whose INSERT fails leaves it empty.
\<close>

theorem compute_ownership_failure_loses_rows:
  "ownership (snd (compute_ownership NoFault sample_store)) \<noteq> [] \<and>
   ownership (snd (compute_ownership InsertFails (snd (compute_ownership NoFault sample_store))))
     = []"
  by (simp add: compute_ownership_completed compute_ownership_failed sample_select)

text \<open>
  C1, as the code has it. The DELETE is committed on its own: when the INSERT fails, the
  ownership table is left empty and every other table is as before; when it succeeds, the
  table holds exactly the rows of the aggregation query, whatever it held before.
\<close>

theorem compute_ownership_delete_then_insert:
  "compute_ownership InsertFails db = (Failed, db\<lparr>ownership := []\<rparr>) \<and>
   compute_ownership NoFault db = (Completed, db\<lparr>ownership := ownership_select db\<rparr>) \<and>
   ownership_select (db\<lparr>ownership := rows\<rparr>) = ownership_select db"
  by (simp add: compute_ownership_completed compute_ownership_failed ownership_select_def
      joined_def)

section \<open>Runs that raise\<close>

text \<open>A run over the one commit that modifies the text file \<open>a\<close> raises AttributeError,
  from every store and with every analyzer and threshold: the entry has a \<open>b_blob\<close>.\<close>

lemma edit_commit_raises: "index_with ths e repo_dir [edit_commit] db = Inl AttributeError"
proof -
  define cn where "cn = connect (disk (set_meta (init_db (connect db)) ''repo_dir'' repo_dir))"
  obtain cn' where ins: "bulk_insert_commits cn [commit_identity edit_commit] = Inr cn'"
    by (cases "cr_id (commit_identity edit_commit)
                 \<in> set (map (cr_id \<circ> snd) (commits (work cn)))")
       (simp_all add: bulk_insert_commits_def insert_or_ignore_commit_def Let_def
          commit_identity_def edit_commit_def child_def fits_int64_def)
  have d: "commit_diff edit_commit = [diff_to_parent (modified ''a'' text_blob new_text_blob)]"
    by (simp add: commit_diff_def edit_commit_def child_def)
  have b: "b_blob (diff_to_parent (modified ''a'' text_blob new_text_blob)) = Some text_blob"
    by (simp add: diff_to_parent_def modified_def)
  have "index_commit ths e (conn_commit cn', empty_buffers) edit_commit = Inl AttributeError"
    by (simp add: index_commit_def d process_diff_b_blob [OF b])
  then have "diff_pass ths e (conn_commit cn', empty_buffers) [edit_commit] = Inl AttributeError"
    by simp
  with ins show ?thesis
    by (simp add: index_with_def Let_def cn_def)
qed

text \<open>Binding an authored date that does not fit 64 bits raises OverflowError.\<close>

lemma far_date_raises:
  "index_with ths e repo_dir [c\<lparr>authored_date := 2 ^ 63\<rparr>] db = Inl OverflowError"
  by (simp add: index_with_def Let_def bulk_insert_commits_def insert_or_ignore_commit_def
      commit_identity_def fits_int64_def)

text \<open>
  C4. The claim: indexing a commit set, and indexing it again, does not fail. For the
  history of one commit that modifies a text file the run raises AttributeError at line
  81, on an empty store and on every other store, so the first run fails and so does
  every run after it.
\<close>

theorem index_raises_on_modified_file:
  "index e repo_dir [edit_commit] db = Inl AttributeError"
  unfolding index_def by (rule edit_commit_raises)

section \<open>The analyzer\<close>

text \<open>The condition of the complexity sample never holds: it needs a \<open>b_blob\<close>, and
  with a \<open>b_blob\<close> reading \<open>is_binary\<close> raises.\<close>

lemma sample_wanted_never: "sample_wanted d \<noteq> Inr True"
  by (simp add: sample_wanted_def blob_is_binary_def split: option.splits)

lemma process_diff_analyzer:
  "process_diff (e\<lparr>analyze_code_string := f\<rparr>) c s d = process_diff e c s d"
proof (cases "sample_wanted d")
  case (Inl err)
  then show ?thesis by (simp add: process_diff_def split: sum.splits)
next
  case (Inr wanted)
  with sample_wanted_never [of d] have "sample_wanted d = Inr False" by simp
  then show ?thesis by (simp add: process_diff_def split: sum.splits)
qed

lemma process_diffs_analyzer:
  "process_diffs (e\<lparr>analyze_code_string := f\<rparr>) c s ds = process_diffs e c s ds"
  by (induction ds arbitrary: s) (simp_all add: process_diff_analyzer split: sum.splits)

lemma commit_features_analyzer:
  "commit_features (e\<lparr>analyze_code_string := f\<rparr>) c = commit_features e c"
  by (simp add: commit_features_def pattern_features_def)

lemma index_commit_analyzer:
  "index_commit ths (e\<lparr>analyze_code_string := f\<rparr>) s c = index_commit ths e s c"
  by (simp add: index_commit_def process_diffs_analyzer commit_features_analyzer
      split: sum.splits prod.splits)

lemma diff_pass_analyzer:
  "diff_pass ths (e\<lparr>analyze_code_string := f\<rparr>) s cs = diff_pass ths e s cs"
  by (induction cs arbitrary: s) (simp_all add: index_commit_analyzer split: sum.splits)

lemma index_with_analyzer:
  "index_with ths (e\<lparr>analyze_code_string := f\<rparr>) repo_dir cs db = index_with ths e repo_dir cs db"
  by (simp add: index_with_def Let_def diff_pass_analyzer split: sum.splits)

text \<open>
  C7. The claim: without the analyzer the run still completes, for any commit sequence.
  The run over the one commit that modifies a text file raises AttributeError at line 81
  without the analyzer, as it does with it. The analyzer is never called: a run gives the
  same result, rows or exception, with the analyzer it is given, with none, and with one
  that raises for every file.
\<close>

theorem run_without_analyzer_raises:
  "index no_analyzer_env ''repo'' [edit_commit] empty_store = Inl AttributeError \<and>
   index sample_env ''repo'' [edit_commit] empty_store = Inl AttributeError \<and>
   index_with ths (e\<lparr>analyze_code_string := analyzer_unavailable\<rparr>) repo_dir cs db
     = index_with ths e repo_dir cs db \<and>
   index_with ths (e\<lparr>analyze_code_string := (\<lambda>file_path code. Raises)\<rparr>) repo_dir cs db
     = index_with ths e repo_dir cs db"
proof (intro conjI)
  show "index no_analyzer_env ''repo'' [edit_commit] empty_store = Inl AttributeError"
    unfolding index_def by (rule edit_commit_raises)
  show "index sample_env ''repo'' [edit_commit] empty_store = Inl AttributeError"
    unfolding index_def by (rule edit_commit_raises)
  show "index_with ths (e\<lparr>analyze_code_string := analyzer_unavailable\<rparr>) repo_dir cs db
      = index_with ths e repo_dir cs db"
    by (rule index_with_analyzer)
  show "index_with ths (e\<lparr>analyze_code_string := (\<lambda>file_path code. Raises)\<rparr>) repo_dir cs db
      = index_with ths e repo_dir cs db"
    by (rule index_with_analyzer)
qed

section \<open>Flush thresholds\<close>

text \<open>
  C8. The claim: the rows the run persists do not depend on the flush thresholds. On an
  empty store, with commit \<open>h1\<close> adding \<open>a\<close> and \<open>b\<close> and carrying a why marker,
  and commit \<open>h2\<close> adding \<open>b\<close>, both runs give \<open>a\<close> the id 1 and \<open>b\<close> the id 2;
  the run that flushes every row at once stores the change of \<open>b\<close> by \<open>h2\<close> under the
  file id 1 (the rowid of the feature row flushed last), the run with the source's
  thresholds stores it under 2. Both come from \<open>upsert_file\<close> returning the
  connection's last insert rowid for a path that is already in \<open>files\<close>.
\<close>

theorem flush_threshold_changes_file_ids:
  "map_sum id (\<lambda>db. (map (\<lambda>r. (fl_id r, fl_path r)) (files db),
                      map (\<lambda>(i, r). (cf_commit_id r, cf_file_id r, cf_new_path r))
                          (commit_files db)))
     (index_with eager_thresholds no_analyzer_env ''repo'' two_commits empty_store)
   = Inr ([(1, Some ''a''), (2, Some ''b'')],
          [(''h1'', 1, Some ''a''), (''h1'', 2, Some ''b''), (''h2'', 1, Some ''b'')]) \<and>
   map_sum id (\<lambda>db. (map (\<lambda>r. (fl_id r, fl_path r)) (files db),
                      map (\<lambda>(i, r). (cf_commit_id r, cf_file_id r, cf_new_path r))
                          (commit_files db)))
     (index_with source_thresholds no_analyzer_env ''repo'' two_commits empty_store)
   = Inr ([(1, Some ''a''), (2, Some ''b'')],
          [(''h1'', 1, Some ''a''), (''h1'', 2, Some ''b''), (''h2'', 2, Some ''b'')])"
  by code_simp

end
